theory Spec2Isabelle
  imports Complex_Main "HOL-Library.Word" "HOL-Library.Log_Nat"
begin

section \<open>The image upscaler service: services/image_upscaler/upscaler.py\<close>

text \<open>
  The module is dispatch logic around third-party libraries (torch, cv2, basicsr,
  realesrgan, gfpgan). Everything the module computes itself is translated below;
  every call that leaves the module is a field of an environment record, and each such
  call is written to an event list in the order in which the module makes it.
  Python's \<open>float\<close> is an IEEE 754 binary64 number, \<open>float64\<close> below, and Python's
  \<open>int\<close> is \<open>int\<close>.
\<close>

subsection \<open>Binary64 floating point\<close>

text \<open>
  A finite double is given by its exact rational value; \<open>NegZero\<close> is \<open>-0.0\<close>. The
  arithmetic rounds the exact result to the nearest double, ties to the even significand,
  with gradual underflow below \<open>2^-1022\<close> and overflow to infinity from
  \<open>2^1024 - 2^970\<close> on. \<open>ilog2 r\<close> is the exponent \<open>e\<close> with \<open>2^e \<le> r < 2^(e+1)\<close>.
\<close>

datatype float64 = Finite rat | NegZero | PInf | NInf | NaN

fun fval :: "float64 \<Rightarrow> rat option" where
  "fval (Finite r) = Some r"
| "fval NegZero = Some 0"
| "fval x = None"

definition ilog2 :: "rat \<Rightarrow> int" where
  "ilog2 r = (if 1 \<le> r then bitlen \<lfloor>r\<rfloor> - 1 else - bitlen (\<lceil>1 / r\<rceil> - 1))"

definition round_half_even :: "rat \<Rightarrow> int" where
  "round_half_even n =
    (let f = \<lfloor>n\<rfloor>; d = n - of_int f
     in if d < 1 / 2 then f else if 1 / 2 < d then f + 1 else if even f then f else f + 1)"

definition round64 :: "rat \<Rightarrow> float64" where
  "round64 r =
    (if r = 0 then Finite 0
     else
       (let e = max (ilog2 \<bar>r\<bar>) (- 1022);
            q = power_int 2 (e - 52);
            k = round_half_even (\<bar>r\<bar> / q)
        in if k = 0 then (if r < 0 then NegZero else Finite 0)
           else if power_int 2 1024 \<le> of_int k * q then (if r < 0 then NInf else PInf)
           else Finite (sgn r * of_int k * q)))"

text \<open>Float addition, negation and subtraction (\<open>x - y\<close> is \<open>x + (-y)\<close>).\<close>

fun fadd :: "float64 \<Rightarrow> float64 \<Rightarrow> float64" where
  "fadd NaN y = NaN"
| "fadd x NaN = NaN"
| "fadd PInf NInf = NaN"
| "fadd NInf PInf = NaN"
| "fadd PInf y = PInf"
| "fadd x PInf = PInf"
| "fadd NInf y = NInf"
| "fadd x NInf = NInf"
| "fadd NegZero NegZero = NegZero"
| "fadd NegZero (Finite b) = round64 b"
| "fadd (Finite a) NegZero = round64 a"
| "fadd (Finite a) (Finite b) = round64 (a + b)"

fun fneg :: "float64 \<Rightarrow> float64" where
  "fneg (Finite r) = (if r = 0 then NegZero else Finite (- r))"
| "fneg NegZero = Finite 0"
| "fneg PInf = NInf"
| "fneg NInf = PInf"
| "fneg NaN = NaN"

definition fsub :: "float64 \<Rightarrow> float64 \<Rightarrow> float64" where
  "fsub x y = fadd x (fneg y)"

text \<open>
  The comparison \<open>x == y\<close> of two floats: \<open>nan\<close> equals nothing, the two zeros are
  equal. \<open>x != y\<close> is its negation. The integer literal \<open>1\<close> of the source is the
  float \<open>Finite 1\<close> in a mixed comparison or subtraction.
\<close>

fun feq :: "float64 \<Rightarrow> float64 \<Rightarrow> bool" where
  "feq NaN y = False"
| "feq x NaN = False"
| "feq PInf y = (y = PInf)"
| "feq NInf y = (y = NInf)"
| "feq x PInf = False"
| "feq x NInf = False"
| "feq x y = (fval x = fval y)"


subsection \<open>The request schema\<close>

text \<open>
  \<open>services/image_upscaler/schema.py\<close> is imported by the module. The members of its enums
  are the ones the module names; \<open>OtherName\<close> and \<open>OtherDevice\<close> stand for any
  value that compares unequal to all of them (Python does not enforce the annotations).
\<close>

datatype ModelName =
    RealESRGAN_x4plus
  | RealESRGAN_x2plus
  | RealESRGAN_x4plus_anime_6B
  | realesr_animevideov3
  | realesr_general_x4v3
  | UltraSharp_x4
  | OtherName string

datatype DeviceType = AUTO | CUDA | CPU | MPS | OtherDevice string

text \<open>
  Modelled from the spec: the values of the \<open>DeviceType\<close> members (\<open>DeviceType.CUDA.value\<close>,
  \<open>DeviceType.MPS.value\<close>) are declared in the schema module; the spec gives the
  preferences as auto, cpu, cuda, mps and the backends as cpu, cuda, mps.
\<close>

fun DeviceType_value :: "DeviceType \<Rightarrow> string" where
  "DeviceType_value AUTO = ''auto''"
| "DeviceType_value CUDA = ''cuda''"
| "DeviceType_value CPU = ''cpu''"
| "DeviceType_value MPS = ''mps''"
| "DeviceType_value (OtherDevice s) = s"

datatype network =
    RRDBNet nat nat nat nat nat nat
      \<comment> \<open>num_in_ch, num_out_ch, num_feat, num_block, num_grow_ch, scale\<close>
  | SRVGGNetCompact nat nat nat nat nat string
      \<comment> \<open>num_in_ch, num_out_ch, num_feat, num_conv, upscale, act_type\<close>

record ModelEntity =
  model :: network
  netscale :: int
  file_url :: "string list"

record UpscaleRequest =
  model_name :: ModelName
  denoise_strength :: "float64 option"
  device_type :: DeviceType
  tile :: int
  tile_pad :: int
  pre_pad :: int
  fp32 :: bool
  gpu_id :: "int option"
  face_enhance :: bool
  outscale :: float64
  ext :: string

subsection \<open>Exceptions\<close>

text \<open>
  An exception is a value. \<open>RuntimeErrorSubclass\<close> is an instance of a subclass of
  \<open>RuntimeError\<close> (torch's out-of-memory error, \<open>NotImplementedError\<close>), which an
  \<open>except RuntimeError\<close> clause catches as well; \<open>OtherException\<close> is any exception
  outside that hierarchy, with its class name.
\<close>

datatype exn =
    ValueError string
  | RuntimeError string
  | RuntimeErrorSubclass string string
  | AttributeError string
  | UnboundLocalError string
  | OtherException string string

fun isinstance_RuntimeError :: "exn \<Rightarrow> bool" where
  "isinstance_RuntimeError (RuntimeError m) = True"
| "isinstance_RuntimeError (RuntimeErrorSubclass c m) = True"
| "isinstance_RuntimeError e = False"

subsection \<open>The model registry: \<open>_get_model\<close>\<close>

definition get_model :: "ModelName \<Rightarrow> exn + ModelEntity" where
  "get_model name =
    (if name = RealESRGAN_x4plus then
       Inr \<lparr>model = RRDBNet 3 3 64 23 32 4, netscale = 4,
            file_url = [''https://github.com/xinntao/Real-ESRGAN/releases/download/v0.1.0/RealESRGAN_x4plus.pth'']\<rparr>
     else if name = RealESRGAN_x2plus then
       Inr \<lparr>model = RRDBNet 3 3 64 23 32 2, netscale = 2,
            file_url = [''https://github.com/xinntao/Real-ESRGAN/releases/download/v0.2.1/RealESRGAN_x2plus.pth'']\<rparr>
     else if name = RealESRGAN_x4plus_anime_6B then
       Inr \<lparr>model = RRDBNet 3 3 64 6 32 4, netscale = 4,
            file_url = [''https://github.com/xinntao/Real-ESRGAN/releases/download/v0.2.2.4/RealESRGAN_x4plus_anime_6B.pth'']\<rparr>
     else if name = realesr_animevideov3 then
       Inr \<lparr>model = SRVGGNetCompact 3 3 64 16 4 ''prelu'', netscale = 4,
            file_url = [''https://github.com/xinntao/Real-ESRGAN/releases/download/v0.2.5.0/realesr-animevideov3.pth'']\<rparr>
     else if name = realesr_general_x4v3 then
       Inr \<lparr>model = SRVGGNetCompact 3 3 64 32 4 ''prelu'', netscale = 4,
            file_url = [''https://github.com/xinntao/Real-ESRGAN/releases/download/v0.2.5.0/realesr-general-wdn-x4v3.pth'',
                        ''https://github.com/xinntao/Real-ESRGAN/releases/download/v0.2.5.0/realesr-general-x4v3.pth'']\<rparr>
     else if name = UltraSharp_x4 then
       Inr \<lparr>model = RRDBNet 3 3 64 23 32 4, netscale = 4,
            file_url = [''https://github.com/dmcooller/Not-Real-ESRGAN/releases/download/v0.3.1/UltraSharp_x4.pth'']\<rparr>
     else Inl (ValueError ''Invalid model name''))"

subsection \<open>The output extension: \<open>_get_extension\<close>\<close>

text \<open>\<open>img_mode\<close> is the string \<open>'RGBA'\<close> or \<open>None\<close>.\<close>

definition get_extension :: "string option \<Rightarrow> string \<Rightarrow> string" where
  "get_extension img_mode ext' =
    (if img_mode = Some ''RGBA'' then ''png''
     else if ext' = ''auto'' then ''jpg''
     else ext')"

subsection \<open>Strings and paths\<close>

text \<open>
  \<open>str.replace(old, new)\<close>: every occurrence of \<open>old\<close>, found left to right without
  overlap, is replaced. For an empty \<open>old\<close> Python puts \<open>new\<close> before every character
  and at the end.
\<close>

fun replace_from :: "string \<Rightarrow> string \<Rightarrow> string \<Rightarrow> string" where
  "replace_from old new [] = []"
| "replace_from old new (c # cs) =
    (if old \<noteq> [] \<and> take (length old) (c # cs) = old
     then new @ replace_from old new (drop (length old - 1) cs)
     else c # replace_from old new cs)"

definition str_replace :: "string \<Rightarrow> string \<Rightarrow> string \<Rightarrow> string" where
  "str_replace s old new =
    (if old = [] then new @ concat (map (\<lambda>c. c # new) s) else replace_from old new s)"

text \<open>\<open>os.path.join(a, b)\<close> and \<open>os.path.dirname(p)\<close> of \<open>posixpath\<close>.\<close>

definition os_path_join :: "string \<Rightarrow> string \<Rightarrow> string" where
  "os_path_join a b =
    (if b \<noteq> [] \<and> hd b = CHR ''/'' then b
     else if a = [] \<or> last a = CHR ''/'' then a @ b
     else a @ ''/'' @ b)"

definition rstrip_slash :: "string \<Rightarrow> string" where
  "rstrip_slash s = rev (dropWhile (\<lambda>c. c = CHR ''/'') (rev s))"

definition os_path_dirname :: "string \<Rightarrow> string" where
  "os_path_dirname p =
    (let head = rev (dropWhile (\<lambda>c. c \<noteq> CHR ''/'') (rev p))
     in if head \<noteq> [] \<and> head \<noteq> replicate (length head) (CHR ''/'') then rstrip_slash head
        else head)"

subsection \<open>The environment and the events\<close>

type_synonym bytes = "8 word list"

text \<open>A decoded image: a numpy array with its shape tuple.\<close>

record ndarray =
  shape :: "nat list"
  pixels :: "8 word list"

text \<open>
  The \<open>model_path\<close> argument of \<open>RealESRGANer\<close> is one string, or a list of strings
  when the denoise strength blends two weight files.
\<close>

datatype path_arg = PathStr string | PathList "string list"

text \<open>The keyword arguments of the two constructors the module calls.\<close>

record RealESRGANer_kwargs =
  kw_scale :: int
  kw_model_path :: path_arg
  kw_dni_weight :: "float64 list option"
  kw_model :: network
  kw_tile :: int
  kw_tile_pad :: int
  kw_pre_pad :: int
  kw_half :: bool
  kw_gpu_id :: "int option"
  kw_device :: string

record GFPGANer_kwargs =
  g_model_path :: string
  g_upscale :: float64
  g_arch :: string
  g_channel_multiplier :: int
  g_bg_upsampler :: RealESRGANer_kwargs
  g_device :: string

text \<open>
  One event per call that leaves the module, in program order: the file test of the
  weight cache, a fetch through \<open>load_file_from_url\<close> (url and target directory), the
  two hardware queries, the two logger calls, the two constructors, the decoder, the two
  enhancement calls and the encoder (with the extension it is given).
\<close>

datatype event =
    IsFile string
  | LoadFileFromUrl string string
  | CudaIsAvailable
  | MpsIsAvailable
  | LogDebug string
  | LogError exn
  | NewRealESRGANer RealESRGANer_kwargs
  | Imdecode bytes
  | NewGFPGANer GFPGANer_kwargs
  | FaceEnhance
  | Enhance
  | Imencode string

text \<open>
  The collaborators. \<open>'fs\<close> is the state of the filesystem, which the module only
  reaches through them. \<open>ModelName_value\<close> is the string value of a \<open>ModelName\<close> member
  (declared in the schema module) and \<open>module_abspath\<close> is \<open>os.path.abspath(__file__)\<close>.
  A constructor returns the exception it raises, if any; the objects it builds are
  represented by their keyword arguments.
\<close>

record 'fs env =
  ModelName_value :: "ModelName \<Rightarrow> string"
  module_abspath :: string
  os_path_isfile :: "'fs \<Rightarrow> string \<Rightarrow> bool"
  load_file_from_url :: "string \<Rightarrow> string \<Rightarrow> 'fs \<Rightarrow> (exn + string) \<times> 'fs"
  cudaIsAvailable :: bool
  mpsIsAvailable :: bool
  RealESRGANer_init :: "'fs \<Rightarrow> RealESRGANer_kwargs \<Rightarrow> exn option"
  cv2_imdecode :: "bytes \<Rightarrow> exn + ndarray option"
  GFPGANer_init :: "GFPGANer_kwargs \<Rightarrow> 'fs \<Rightarrow> exn option \<times> 'fs"
  face_enhancer_enhance :: "GFPGANer_kwargs \<Rightarrow> ndarray \<Rightarrow> exn + ndarray"
  upsampler_enhance :: "RealESRGANer_kwargs \<Rightarrow> ndarray \<Rightarrow> float64 \<Rightarrow> exn + ndarray"
  cv2_imencode :: "string \<Rightarrow> ndarray \<Rightarrow> exn + bool \<times> bytes"

text \<open>
  A computation takes the filesystem and returns the value or the raised exception, the
  filesystem it leaves and the events of its calls.
\<close>

type_synonym ('a, 'fs) io = "'fs \<Rightarrow> (exn + 'a) \<times> 'fs \<times> event list"

definition return_io :: "'a \<Rightarrow> ('a, 'fs) io" where
  "return_io x fs = (Inr x, fs, [])"

definition raise_io :: "exn \<Rightarrow> ('a, 'fs) io" where
  "raise_io e fs = (Inl e, fs, [])"

definition lift_io :: "exn + 'a \<Rightarrow> ('a, 'fs) io" where
  "lift_io r fs = (r, fs, [])"

definition bind_io :: "('a, 'fs) io \<Rightarrow> ('a \<Rightarrow> ('b, 'fs) io) \<Rightarrow> ('b, 'fs) io" where
  "bind_io m f fs =
    (case m fs of
       (Inl e, fs1, ev1) \<Rightarrow> (Inl e, fs1, ev1)
     | (Inr x, fs1, ev1) \<Rightarrow> (case f x fs1 of (r, fs2, ev2) \<Rightarrow> (r, fs2, ev1 @ ev2)))"

subsection \<open>The weight resolver: \<open>_get_model_path\<close>\<close>

text \<open>
  The \<open>for\<close> loop over \<open>file_url\<close>: each pass overwrites \<open>model_path\<close> with what
  \<open>load_file_from_url\<close> returns; an exception leaves the loop.
\<close>

fun get_model_path_loop ::
  "'fs env \<Rightarrow> string \<Rightarrow> string list \<Rightarrow> string \<Rightarrow> (string, 'fs) io" where
  "get_model_path_loop env model_dir [] model_path fs = (Inr model_path, fs, [])"
| "get_model_path_loop env model_dir (url # urls) model_path fs =
    (case load_file_from_url env url model_dir fs of
       (Inl e, fs1) \<Rightarrow> (Inl e, fs1, [LoadFileFromUrl url model_dir])
     | (Inr p, fs1) \<Rightarrow>
         (case get_model_path_loop env model_dir urls p fs1 of
            (r, fs2, ev) \<Rightarrow> (r, fs2, LoadFileFromUrl url model_dir # ev)))"

definition get_model_path :: "'fs env \<Rightarrow> string \<Rightarrow> string list \<Rightarrow> (string, 'fs) io" where
  "get_model_path env name urls fs =
    (let model_path = os_path_join ''weights'' (name @ ''.pth'')
     in if \<not> os_path_isfile env fs model_path then
          (let root_dir = os_path_dirname (os_path_dirname (os_path_dirname (module_abspath env)))
           in case get_model_path_loop env (os_path_join root_dir ''weights'') urls model_path fs of
                (r, fs1, ev) \<Rightarrow> (r, fs1, IsFile model_path # ev))
        else (Inr model_path, fs, [IsFile model_path]))"

subsection \<open>The device selector: \<open>_get_device_type\<close>\<close>

text \<open>
  The \<open>match\<close> statement has no default case: for a value outside the four members
  \<open>backend\<close> is unbound when the logger call reads it. The backend is logged only when
  one was chosen.
\<close>

definition get_device_type :: "'fs env \<Rightarrow> DeviceType \<Rightarrow> (string, 'fs) io" where
  "get_device_type env backend_type fs =
    (case (case backend_type of
             AUTO \<Rightarrow>
               if cudaIsAvailable env then (Inr ''cuda'', [CudaIsAvailable])
               else if mpsIsAvailable env then (Inr ''mps'', [CudaIsAvailable, MpsIsAvailable])
               else (Inr ''cpu'', [CudaIsAvailable, MpsIsAvailable])
           | CUDA \<Rightarrow>
               if cudaIsAvailable env then (Inr ''cuda'', [CudaIsAvailable])
               else (Inl (RuntimeError ''CUDA is not available''), [CudaIsAvailable])
           | CPU \<Rightarrow> (Inr ''cpu'', [])
           | MPS \<Rightarrow>
               if mpsIsAvailable env then (Inr ''mps'', [MpsIsAvailable])
               else (Inl (RuntimeError ''MPS is not available''), [MpsIsAvailable])
           | OtherDevice s \<Rightarrow> (Inl (UnboundLocalError ''backend''), [])) of
       (Inl e, ev) \<Rightarrow> (Inl e, fs, ev)
     | (Inr backend, ev) \<Rightarrow> (Inr backend, fs, ev @ [LogDebug (''Using backend: '' @ backend)]))"

subsection \<open>The face enhancer: \<open>_load_face_enhancer\<close>\<close>

definition load_face_enhancer ::
  "'fs env \<Rightarrow> float64 \<Rightarrow> RealESRGANer_kwargs \<Rightarrow> string \<Rightarrow> (GFPGANer_kwargs, 'fs) io" where
  "load_face_enhancer env outscale' upsampler device fs =
    (let kw = \<lparr>g_model_path = ''https://github.com/TencentARC/GFPGAN/releases/download/v1.3.0/GFPGANv1.3.pth'',
               g_upscale = outscale', g_arch = ''clean'', g_channel_multiplier = 2,
               g_bg_upsampler = upsampler, g_device = device\<rparr>
     in case GFPGANer_init env kw fs of
          (Some e, fs1) \<Rightarrow> (Inl e, fs1, [NewGFPGANer kw])
        | (None, fs1) \<Rightarrow> (Inr kw, fs1, [NewGFPGANer kw]))"

subsection \<open>The orchestrator: \<open>upscale\<close>\<close>

text \<open>
  Lines 28 to 33: the denoise strength selects the weight paths and the blend weights
  handed to \<open>RealESRGANer\<close>.
\<close>

definition upscale_dni ::
  "ModelName \<Rightarrow> float64 option \<Rightarrow> string \<Rightarrow> path_arg \<times> float64 list option" where
  "upscale_dni name strength model_path =
    (if name = realesr_general_x4v3 \<and> strength \<noteq> None \<and> \<not> feq (the strength) (Finite 1) then
       (let wdn_model_path = str_replace model_path ''realesr-general-x4v3'' ''realesr-general-wdn-x4v3''
        in (PathList [model_path, wdn_model_path],
            Some [the strength, fsub (Finite 1) (the strength)]))
     else (PathStr model_path, None))"

text \<open>Line 39: half precision.\<close>

definition upscale_half :: "string \<Rightarrow> bool \<Rightarrow> bool" where
  "upscale_half device fp32' =
    (if device \<in> set [DeviceType_value CUDA, DeviceType_value MPS] then \<not> fp32' else False)"

text \<open>Lines 58 to 61: the image mode read off the shape of the decoded array.\<close>

definition upscale_img_mode :: "ndarray \<Rightarrow> string option" where
  "upscale_img_mode img =
    (if length (shape img) = 3 \<and> shape img ! 2 = 4 then Some ''RGBA'' else None)"

text \<open>
  Lines 42 to 53: the keyword arguments of the \<open>RealESRGANer\<close> call. \<open>model_path\<close> is
  what \<open>_get_model_path\<close> returned and \<open>device\<close> what \<open>_get_device_type\<close> returned.
\<close>

definition upscale_kwargs ::
  "UpscaleRequest \<Rightarrow> ModelEntity \<Rightarrow> string \<Rightarrow> string \<Rightarrow> RealESRGANer_kwargs" where
  "upscale_kwargs params model_entity model_path device =
    (case upscale_dni (model_name params) (denoise_strength params) model_path of
       (model_path', dni_weight) \<Rightarrow>
         \<lparr>kw_scale = netscale model_entity, kw_model_path = model_path',
          kw_dni_weight = dni_weight, kw_model = model model_entity,
          kw_tile = tile params, kw_tile_pad = tile_pad params, kw_pre_pad = pre_pad params,
          kw_half = upscale_half device (fp32 params), kw_gpu_id = gpu_id params,
          kw_device = device\<rparr>)"

text \<open>The two calls of lines 42 to 56, with their events.\<close>

definition RealESRGANer :: "'fs env \<Rightarrow> RealESRGANer_kwargs \<Rightarrow> (RealESRGANer_kwargs, 'fs) io" where
  "RealESRGANer env kw fs =
    (case RealESRGANer_init env fs kw of
       Some e \<Rightarrow> (Inl e, fs, [NewRealESRGANer kw])
     | None \<Rightarrow> (Inr kw, fs, [NewRealESRGANer kw]))"

definition imdecode :: "'fs env \<Rightarrow> bytes \<Rightarrow> (ndarray option, 'fs) io" where
  "imdecode env file fs = (cv2_imdecode env file, fs, [Imdecode file])"

text \<open>
  Lines 25 to 61, up to the \<open>try\<close> statement. When the decoder returns \<open>None\<close>, reading
  \<open>img.shape\<close> raises \<open>AttributeError\<close> (its message is written without the quotation
  marks Python puts around the names).
\<close>

definition upscale_setup ::
  "'fs env \<Rightarrow> bytes \<Rightarrow> UpscaleRequest \<Rightarrow>
    (RealESRGANer_kwargs \<times> string \<times> ndarray \<times> string option, 'fs) io" where
  "upscale_setup env file params =
    bind_io (lift_io (get_model (model_name params))) (\<lambda>model_entity.
    bind_io (get_model_path env (ModelName_value env (model_name params)) (file_url model_entity))
      (\<lambda>model_path.
    bind_io (get_device_type env (device_type params)) (\<lambda>device.
    bind_io (RealESRGANer env (upscale_kwargs params model_entity model_path device))
      (\<lambda>upsampler.
    bind_io (imdecode env file) (\<lambda>img.
    case img of
      None \<Rightarrow> raise_io (AttributeError ''NoneType object has no attribute shape'')
    | Some img' \<Rightarrow> return_io (upsampler, device, img', upscale_img_mode img'))))))"

text \<open>Lines 64 to 68: the body of the \<open>try\<close> statement.\<close>

definition upscale_enhance ::
  "'fs env \<Rightarrow> UpscaleRequest \<Rightarrow> RealESRGANer_kwargs \<Rightarrow> string \<Rightarrow> ndarray \<Rightarrow> (ndarray, 'fs) io" where
  "upscale_enhance env params upsampler device img =
    (if face_enhance params then
       bind_io (load_face_enhancer env (outscale params) upsampler device) (\<lambda>face_enhancer fs.
         (face_enhancer_enhance env face_enhancer img, fs, [FaceEnhance]))
     else (\<lambda>fs. (upsampler_enhance env upsampler img (outscale params), fs, [Enhance])))"

text \<open>
  Lines 63 to 71: the \<open>try\<close> statement. A \<open>RuntimeError\<close> is logged and raised again;
  any other exception passes the handler by.
\<close>

definition upscale_try ::
  "'fs env \<Rightarrow> UpscaleRequest \<Rightarrow> RealESRGANer_kwargs \<Rightarrow> string \<Rightarrow> ndarray \<Rightarrow> (ndarray, 'fs) io" where
  "upscale_try env params upsampler device img fs =
    (case upscale_enhance env params upsampler device img fs of
       (Inl error, fs1, ev) \<Rightarrow>
         if isinstance_RuntimeError error then (Inl error, fs1, ev @ [LogError error])
         else (Inl error, fs1, ev)
     | (Inr output, fs1, ev) \<Rightarrow> (Inr output, fs1, ev))"

text \<open>Lines 73 to 80: the extension and the encoder.\<close>

definition upscale_encode ::
  "'fs env \<Rightarrow> UpscaleRequest \<Rightarrow> string option \<Rightarrow> ndarray \<Rightarrow> (bytes \<times> string, 'fs) io" where
  "upscale_encode env params img_mode output fs =
    (let extension = get_extension img_mode (ext params)
     in case cv2_imencode env extension output of
          Inl e \<Rightarrow> (Inl e, fs, [Imencode extension])
        | Inr (is_success, buffer) \<Rightarrow>
            if \<not> is_success then (Inl (RuntimeError ''Error encoding the image''), fs, [Imencode extension])
            else (Inr (buffer, extension), fs, [Imencode extension]))"

definition upscale :: "'fs env \<Rightarrow> bytes \<Rightarrow> UpscaleRequest \<Rightarrow> (bytes \<times> string, 'fs) io" where
  "upscale env file params =
    bind_io (upscale_setup env file params) (\<lambda>(upsampler, device, img, img_mode).
    bind_io (upscale_try env params upsampler device img) (\<lambda>output.
    upscale_encode env params img_mode output))"

subsection \<open>Observations on event lists\<close>

fun is_fetch :: "event \<Rightarrow> bool" where
  "is_fetch (LoadFileFromUrl url model_dir) = True"
| "is_fetch e = False"

definition fetches :: "event list \<Rightarrow> nat" where
  "fetches ev = length (filter is_fetch ev)"

text \<open>The events of the enhancement stage and of the encoder.\<close>

fun is_enhance_or_encode :: "event \<Rightarrow> bool" where
  "is_enhance_or_encode (NewGFPGANer kw) = True"
| "is_enhance_or_encode FaceEnhance = True"
| "is_enhance_or_encode Enhance = True"
| "is_enhance_or_encode (Imencode e) = True"
| "is_enhance_or_encode e = False"

subsection \<open>A concrete host\<close>

text \<open>
  A host on which the definitions can be evaluated: the process runs in \<open>/app\<close>, the
  module lies at \<open>/app/services/image_upscaler/upscaler.py\<close>, there is no accelerator, and
  the filesystem is the list of the absolute paths of its files. \<open>load_file_from_url\<close>
  behaves as basicsr documents it: the file is stored under the last component of the
  url in the target directory, and fetched only when it is not there yet.
\<close>

fun sample_ModelName_value :: "ModelName \<Rightarrow> string" where
  "sample_ModelName_value RealESRGAN_x4plus = ''RealESRGAN_x4plus''"
| "sample_ModelName_value RealESRGAN_x2plus = ''RealESRGAN_x2plus''"
| "sample_ModelName_value RealESRGAN_x4plus_anime_6B = ''RealESRGAN_x4plus_anime_6B''"
| "sample_ModelName_value realesr_animevideov3 = ''realesr-animevideov3''"
| "sample_ModelName_value realesr_general_x4v3 = ''realesr-general-x4v3''"
| "sample_ModelName_value UltraSharp_x4 = ''UltraSharp_x4''"
| "sample_ModelName_value (OtherName s) = s"

definition os_path_basename :: "string \<Rightarrow> string" where
  "os_path_basename p = rev (takeWhile (\<lambda>c. c \<noteq> CHR ''/'') (rev p))"

definition sample_env :: "string list env" where
  "sample_env =
    \<lparr>ModelName_value = sample_ModelName_value,
     module_abspath = ''/app/services/image_upscaler/upscaler.py'',
     os_path_isfile = (\<lambda>fs p. os_path_join ''/app'' p \<in> set fs),
     load_file_from_url = (\<lambda>url model_dir fs.
        (let cached_file = os_path_join model_dir (os_path_basename url)
         in (Inr cached_file, if cached_file \<in> set fs then fs else fs @ [cached_file]))),
     cudaIsAvailable = False,
     mpsIsAvailable = False,
     RealESRGANer_init = (\<lambda>fs kw. None),
     cv2_imdecode = (\<lambda>file.
        if file = [] then Inl (OtherException ''cv2.error'' ''empty buffer'')
        else if take 2 file = [137, 80] then Inr (Some \<lparr>shape = [1, 1, 3], pixels = [0, 0, 0]\<rparr>)
        else Inr None),
     GFPGANer_init = (\<lambda>kw fs. (None, fs)),
     face_enhancer_enhance = (\<lambda>kw img. Inr img),
     upsampler_enhance = (\<lambda>kw img s.
        if kw_tile kw < 0 then Inl (RuntimeError ''CUDA out of memory'') else Inr img),
     cv2_imencode = (\<lambda>e img. Inr (True, [255, 216]))\<rparr>"

text \<open>The denoise strength of the sample request is the double nearest to 0.3.\<close>

definition sample_request :: UpscaleRequest where
  "sample_request =
    \<lparr>model_name = realesr_general_x4v3,
     denoise_strength = Some (Finite (5404319552844595 / 18014398509481984)), device_type = AUTO,
     tile = 0, tile_pad = 10, pre_pad = 0, fp32 = False, gpu_id = None, face_enhance = False,
     outscale = Finite 4, ext = ''auto''\<rparr>"

section \<open>Properties\<close>

subsection \<open>Rounding near one\<close>



lemma pow_pos: "0 \<le> b \<Longrightarrow> power_int (2::rat) b = 2 ^ nat b"
  by (simp add: power_int_def)












lemma rhe_nonneg: "0 \<le> n \<Longrightarrow> 0 \<le> round_half_even n"
  by (auto simp: round_half_even_def Let_def)




subsection \<open>Auxiliary facts about the events of each stage\<close>

lemma get_model_path_loop_events:
  "get_model_path_loop env d urls p fs = (r, fs', ev) \<Longrightarrow>
   \<exists>k \<le> length urls. ev = map (\<lambda>u. LoadFileFromUrl u d) (take k urls)"
proof (induction urls arbitrary: p fs r fs' ev)
  case Nil
  then show ?case by simp
next
  case (Cons url urls)
  obtain r1 fs1 where l: "load_file_from_url env url d fs = (r1, fs1)"
    by (cases "load_file_from_url env url d fs")
  show ?case
  proof (cases r1)
    case (Inl e)
    with l Cons.prems have "ev = map (\<lambda>u. LoadFileFromUrl u d) (take 1 (url # urls))"
      by simp
    then show ?thesis by (intro exI[of _ 1]) simp
  next
    case (Inr q)
    obtain r2 fs2 ev2 where rest: "get_model_path_loop env d urls q fs1 = (r2, fs2, ev2)"
      by (cases "get_model_path_loop env d urls q fs1")
    from Cons.IH[OF rest] obtain k where k: "k \<le> length urls"
      "ev2 = map (\<lambda>u. LoadFileFromUrl u d) (take k urls)"
      by blast
    from l Inr rest Cons.prems have "ev = LoadFileFromUrl url d # ev2"
      by simp
    with k have "ev = map (\<lambda>u. LoadFileFromUrl u d) (take (Suc k) (url # urls))"
      by simp
    with k(1) show ?thesis by (intro exI[of _ "Suc k"]) simp
  qed
qed

lemma fetches_map_fetch: "fetches (map (\<lambda>u. LoadFileFromUrl u d) us) = length us"
  by (induction us) (simp_all add: fetches_def)

lemma get_model_path_hit:
  "os_path_isfile env fs (os_path_join ''weights'' (name @ ''.pth'')) \<Longrightarrow>
   get_model_path env name urls fs =
     (Inr (os_path_join ''weights'' (name @ ''.pth'')), fs, [IsFile (os_path_join ''weights'' (name @ ''.pth''))])"
  by (simp add: get_model_path_def Let_def)

lemma get_model_path_events:
  assumes "get_model_path env name urls fs = (r, fs', ev)"
  shows "\<exists>k \<le> length urls. ev = IsFile (os_path_join ''weights'' (name @ ''.pth'')) #
      map (\<lambda>u. LoadFileFromUrl u
        (os_path_join (os_path_dirname (os_path_dirname (os_path_dirname (module_abspath env)))) ''weights''))
        (take k urls)"
proof (cases "os_path_isfile env fs (os_path_join ''weights'' (name @ ''.pth''))")
  case True
  with assms have "ev = [IsFile (os_path_join ''weights'' (name @ ''.pth''))]"
    by (simp add: get_model_path_hit)
  then show ?thesis by (intro exI[of _ 0]) simp
next
  case False
  let ?d = "os_path_join (os_path_dirname (os_path_dirname (os_path_dirname (module_abspath env)))) ''weights''"
  let ?p = "os_path_join ''weights'' (name @ ''.pth'')"
  obtain r2 fs2 ev2 where l: "get_model_path_loop env ?d urls ?p fs = (r2, fs2, ev2)"
    by (cases "get_model_path_loop env ?d urls ?p fs")
  from get_model_path_loop_events[OF l] obtain k where k: "k \<le> length urls"
    "ev2 = map (\<lambda>u. LoadFileFromUrl u ?d) (take k urls)" by blast
  from assms False l have "ev = IsFile ?p # ev2"
    by (simp add: get_model_path_def Let_def)
  with k show ?thesis by blast
qed

lemma get_model_path_fetches:
  assumes "get_model_path env name urls fs = (r, fs', ev)"
  shows "fetches ev \<le> length urls"
proof -
  from get_model_path_events[OF assms] obtain k d where "k \<le> length urls"
    "ev = IsFile (os_path_join ''weights'' (name @ ''.pth'')) # map (\<lambda>u. LoadFileFromUrl u d) (take k urls)"
    by blast
  then show ?thesis
    using fetches_map_fetch[of d "take k urls"] by (simp add: fetches_def)
qed

lemma get_device_type_events:
  "get_device_type env pref fs = (r, fs', ev) \<Longrightarrow>
   fs' = fs \<and> (\<forall>x \<in> set ev. x = CudaIsAvailable \<or> x = MpsIsAvailable \<or> (\<exists>s. x = LogDebug s))"
  by (auto simp: get_device_type_def split: DeviceType.splits if_splits)

lemma upscale_setup_unfold:
  "upscale_setup env file params fs =
    (case get_model (model_name params) of
       Inl e \<Rightarrow> (Inl e, fs, [])
     | Inr me \<Rightarrow>
        (case get_model_path env (ModelName_value env (model_name params)) (file_url me) fs of
           (Inl e, fs1, ev1) \<Rightarrow> (Inl e, fs1, ev1)
         | (Inr p, fs1, ev1) \<Rightarrow>
            (case get_device_type env (device_type params) fs1 of
               (Inl e, fs2, ev2) \<Rightarrow> (Inl e, fs2, ev1 @ ev2)
             | (Inr dev, fs2, ev2) \<Rightarrow>
                (case RealESRGANer_init env fs2 (upscale_kwargs params me p dev) of
                   Some e \<Rightarrow>
                     (Inl e, fs2, ev1 @ ev2 @ [NewRealESRGANer (upscale_kwargs params me p dev)])
                 | None \<Rightarrow>
                    (case cv2_imdecode env file of
                       Inl e \<Rightarrow>
                         (Inl e, fs2,
                          ev1 @ ev2 @ [NewRealESRGANer (upscale_kwargs params me p dev), Imdecode file])
                     | Inr None \<Rightarrow>
                         (Inl (AttributeError ''NoneType object has no attribute shape''), fs2,
                          ev1 @ ev2 @ [NewRealESRGANer (upscale_kwargs params me p dev), Imdecode file])
                     | Inr (Some img) \<Rightarrow>
                         (Inr (upscale_kwargs params me p dev, dev, img, upscale_img_mode img), fs2,
                          ev1 @ ev2 @ [NewRealESRGANer (upscale_kwargs params me p dev), Imdecode file]))))))"
proof (cases "get_model (model_name params)")
  case (Inl e)
  then show ?thesis by (simp add: upscale_setup_def bind_io_def lift_io_def)
next
  case (Inr me)
  obtain r1 fs1 ev1 where p: "get_model_path env (ModelName_value env (model_name params)) (file_url me) fs = (r1, fs1, ev1)"
    by (cases "get_model_path env (ModelName_value env (model_name params)) (file_url me) fs")
  show ?thesis
  proof (cases r1)
    case (Inl e)
    with Inr p show ?thesis by (simp add: upscale_setup_def bind_io_def lift_io_def)
  next
    case r1: (Inr mp)
    obtain r2 fs2 ev2 where d: "get_device_type env (device_type params) fs1 = (r2, fs2, ev2)"
      by (cases "get_device_type env (device_type params) fs1")
    show ?thesis
    proof (cases r2)
      case (Inl e)
      with Inr p r1 d show ?thesis by (simp add: upscale_setup_def bind_io_def lift_io_def)
    next
      case r2: (Inr dev)
      show ?thesis
      proof (cases "RealESRGANer_init env fs2 (upscale_kwargs params me mp dev)")
        case (Some e)
        with Inr p r1 d r2 show ?thesis
          by (simp add: upscale_setup_def bind_io_def lift_io_def RealESRGANer_def)
      next
        case None
        with Inr p r1 d r2 show ?thesis
          by (simp add: upscale_setup_def bind_io_def lift_io_def RealESRGANer_def imdecode_def
              raise_io_def return_io_def split: sum.splits option.splits)
      qed
    qed
  qed
qed

lemma upscale_try_unfold:
  "upscale_enhance env params up dev img fs = (r, fs', ev) \<Longrightarrow>
   upscale_try env params up dev img fs =
     (case r of
        Inl e \<Rightarrow> (Inl e, fs', if isinstance_RuntimeError e then ev @ [LogError e] else ev)
      | Inr out \<Rightarrow> (Inr out, fs', ev))"
  by (simp add: upscale_try_def split: sum.splits)

lemma upscale_unfold:
  "upscale env file params fs =
    (case upscale_setup env file params fs of
       (Inl e, fs1, ev1) \<Rightarrow> (Inl e, fs1, ev1)
     | (Inr (up, dev, img, m), fs1, ev1) \<Rightarrow>
        (case upscale_try env params up dev img fs1 of
           (Inl e, fs2, ev2) \<Rightarrow> (Inl e, fs2, ev1 @ ev2)
         | (Inr out, fs2, ev2) \<Rightarrow>
            (case upscale_encode env params m out fs2 of
               (r, fs3, ev3) \<Rightarrow> (r, fs3, ev1 @ ev2 @ ev3))))"
  by (simp add: upscale_def bind_io_def split: sum.splits prod.splits)

lemma upscale_enhance_shape:
  "upscale_enhance env params up dev img fs = (r, fs', ev) \<Longrightarrow>
   \<exists>kw. ev = [Enhance] \<or> ev = [NewGFPGANer kw] \<or> ev = [NewGFPGANer kw, FaceEnhance]"
  by (auto simp: upscale_enhance_def bind_io_def load_face_enhancer_def Let_def
      split: if_splits sum.splits prod.splits option.splits)

lemma setup_failure_events:
  assumes "upscale_setup env file params fs = (r, fs', ev)"
  shows "\<forall>x \<in> set ev. \<not> is_enhance_or_encode x"
proof (cases "get_model (model_name params)")
  case (Inl e)
  with assms show ?thesis by (simp add: upscale_setup_unfold)
next
  case (Inr me)
  obtain r1 fs1 ev1 where p: "get_model_path env (ModelName_value env (model_name params)) (file_url me) fs = (r1, fs1, ev1)"
    by (cases "get_model_path env (ModelName_value env (model_name params)) (file_url me) fs")
  from get_model_path_events[OF p] have e1: "\<forall>x \<in> set ev1. \<not> is_enhance_or_encode x"
    by (auto dest: in_set_takeD)
  show ?thesis
  proof (cases r1)
    case (Inl e)
    with Inr p assms e1 show ?thesis by (simp add: upscale_setup_unfold)
  next
    case r1: (Inr mp)
    obtain r2 fs2 ev2 where d: "get_device_type env (device_type params) fs1 = (r2, fs2, ev2)"
      by (cases "get_device_type env (device_type params) fs1")
    from get_device_type_events[OF d] have e2: "\<forall>x \<in> set ev2. \<not> is_enhance_or_encode x"
      by auto
    from Inr p r1 d assms e1 e2 show ?thesis
      by (auto simp: upscale_setup_unfold split: sum.splits option.splits)
  qed
qed

lemma upscale_encode_success:
  "upscale_encode env params m out fs = (Inr (buf, x), fs', ev) \<Longrightarrow>
   x = get_extension m (ext params) \<and> cv2_imencode env x out = Inr (True, buf) \<and> ev = [Imencode x]"
  by (auto simp: upscale_encode_def Let_def split: sum.splits prod.splits if_splits)

lemma upscale_setup_success:
  "upscale_setup env file params fs = (Inr (up, dev, img, m), fs', ev) \<Longrightarrow>
   cv2_imdecode env file = Inr (Some img) \<and> m = upscale_img_mode img"
  by (auto simp: upscale_setup_unfold split: sum.splits prod.splits option.splits)

lemma upscale_success:
  assumes "upscale env file params fs = (Inr (buf, x), fs', ev)"
  shows "\<exists>img out pre. cv2_imdecode env file = Inr (Some img) \<and>
     x = get_extension (upscale_img_mode img) (ext params) \<and>
     cv2_imencode env x out = Inr (True, buf) \<and> ev = pre @ [Imencode x]"
proof -
  obtain r1 fs1 ev1 where s: "upscale_setup env file params fs = (r1, fs1, ev1)"
    by (cases "upscale_setup env file params fs")
  from assms s obtain up dev img m where r1: "r1 = Inr (up, dev, img, m)"
    by (cases r1) (auto simp: upscale_unfold)
  obtain r2 fs2 ev2 where t: "upscale_try env params up dev img fs1 = (r2, fs2, ev2)"
    by (cases "upscale_try env params up dev img fs1")
  from assms s r1 t obtain out where r2: "r2 = Inr out"
    by (cases r2) (auto simp: upscale_unfold)
  obtain r3 fs3 ev3 where e: "upscale_encode env params m out fs2 = (r3, fs3, ev3)"
    by (cases "upscale_encode env params m out fs2")
  from assms s r1 t r2 e have r3: "r3 = Inr (buf, x)" and ev: "ev = ev1 @ ev2 @ ev3"
    by (simp_all add: upscale_unfold)
  from e r3 have e': "upscale_encode env params m out fs2 = (Inr (buf, x), fs3, ev3)"
    by simp
  from s r1 have s': "upscale_setup env file params fs = (Inr (up, dev, img, m), fs1, ev1)"
    by simp
  from upscale_encode_success[OF e'] have x: "x = get_extension m (ext params)"
    and enc: "cv2_imencode env x out = Inr (True, buf)" and ev3: "ev3 = [Imencode x]"
    by blast+
  from upscale_setup_success[OF s'] have dec: "cv2_imdecode env file = Inr (Some img)"
    and m: "m = upscale_img_mode img"
    by blast+
  from ev ev3 have "ev = (ev1 @ ev2) @ [Imencode x]" by simp
  with dec enc x[unfolded m] show ?thesis by blast
qed

subsection \<open>The claims\<close>




text \<open>
  Claim C2. \<open>_get_device_type\<close> on the four preferences: \<open>AUTO\<close> returns cuda when CUDA
  is available, else mps when MPS is available, else cpu, and never raises; \<open>CPU\<close> returns
  cpu; \<open>CUDA\<close> and \<open>MPS\<close> return their backend when it is available and raise the
  \<open>RuntimeError\<close> that reports it unavailable otherwise. Every returned backend is one of
  cpu, cuda, mps, and the filesystem is left as it was.
\<close>

theorem get_device_type_policy:
  "fst (get_device_type env AUTO fs) =
     Inr (if cudaIsAvailable env then ''cuda'' else if mpsIsAvailable env then ''mps'' else ''cpu'') \<and>
   fst (get_device_type env CPU fs) = Inr ''cpu'' \<and>
   fst (get_device_type env CUDA fs) =
     (if cudaIsAvailable env then Inr ''cuda'' else Inl (RuntimeError ''CUDA is not available'')) \<and>
   fst (get_device_type env MPS fs) =
     (if mpsIsAvailable env then Inr ''mps'' else Inl (RuntimeError ''MPS is not available'')) \<and>
   (\<forall>b. fst (get_device_type env pref fs) = Inr b \<longrightarrow> b \<in> {''cpu'', ''cuda'', ''mps''}) \<and>
   fst (snd (get_device_type env pref fs)) = fs"
  by (auto simp: get_device_type_def split: DeviceType.splits)

theorem get_device_type_policy_witness:
  "fst (get_device_type sample_env AUTO []) = Inr ''cpu'' \<and>
   ''cpu'' \<in> {''cpu'', ''cuda'', ''mps''} \<and>
   fst (get_device_type sample_env CUDA []) = Inl (RuntimeError ''CUDA is not available'') \<and>
   fst (get_device_type (sample_env\<lparr>cudaIsAvailable := True\<rparr>) CUDA []) = Inr ''cuda''"
  using get_device_type_policy [of sample_env "[]" AUTO]
    get_device_type_policy [of "sample_env\<lparr>cudaIsAvailable := True\<rparr>" "[]" AUTO]
  by (simp add: sample_env_def)

text \<open>
  Claim C3. The \<open>half\<close> argument of the \<open>RealESRGANer\<close> call is true exactly when the
  resolved backend is cuda or mps and the request's \<open>fp32\<close> flag is false; on cpu it is
  false for both values of \<open>fp32\<close>.
\<close>

theorem half_precision_flag:
  "upscale_half device f = ((device = ''cuda'' \<or> device = ''mps'') \<and> \<not> f) \<and>
   upscale_half ''cpu'' f = False \<and>
   kw_device (upscale_kwargs params me p device) = device \<and>
   kw_half (upscale_kwargs params me p device) =
     ((device = ''cuda'' \<or> device = ''mps'') \<and> \<not> fp32 params)"
  by (auto simp: upscale_half_def upscale_kwargs_def split: prod.splits)

theorem half_precision_flag_witness:
  "upscale_half ''cuda'' False = True \<and> upscale_half ''mps'' True = False \<and>
   upscale_half ''cpu'' False = False \<and>
   kw_half (upscale_kwargs sample_request \<lparr>model = RRDBNet 3 3 64 23 32 4, netscale = 4, file_url = []\<rparr>
     ''weights/x.pth'' ''cuda'') = True"
  using half_precision_flag [of "''cuda''" False sample_request
      "\<lparr>model = RRDBNet 3 3 64 23 32 4, netscale = 4, file_url = []\<rparr>" "''weights/x.pth''"]
    half_precision_flag [of "''mps''" True sample_request
      "\<lparr>model = RRDBNet 3 3 64 23 32 4, netscale = 4, file_url = []\<rparr>" "''weights/x.pth''"]
    half_precision_flag [of "''cpu''" False sample_request
      "\<lparr>model = RRDBNet 3 3 64 23 32 4, netscale = 4, file_url = []\<rparr>" "''weights/x.pth''"]
  by (simp add: sample_request_def)

text \<open>
  Claim C4. \<open>_get_extension\<close>: image mode \<open>'RGBA'\<close> gives png whatever was requested;
  otherwise the request \<open>'auto'\<close> gives jpg; otherwise the requested extension itself.
  The image mode is \<open>'RGBA'\<close> exactly for a decoded array of three dimensions whose third
  is 4, and the extension \<open>upscale\<close> returns is the one \<open>_get_extension\<close> selects for the
  mode of the decoded input and the requested extension.
\<close>

theorem get_extension_selection:
  "(m = Some ''RGBA'' \<longrightarrow> get_extension m e = ''png'') \<and>
   (m \<noteq> Some ''RGBA'' \<and> e = ''auto'' \<longrightarrow> get_extension m e = ''jpg'') \<and>
   (m \<noteq> Some ''RGBA'' \<and> e \<noteq> ''auto'' \<longrightarrow> get_extension m e = e) \<and>
   (upscale_img_mode img = Some ''RGBA'') = (length (shape img) = 3 \<and> shape img ! 2 = 4) \<and>
   (upscale env file params fs = (Inr (buf, x), fs', ev) \<longrightarrow>
      (\<exists>img'. cv2_imdecode env file = Inr (Some img') \<and>
         x = get_extension (upscale_img_mode img') (ext params)))"
proof -
  have "\<exists>img'. cv2_imdecode env file = Inr (Some img') \<and>
         x = get_extension (upscale_img_mode img') (ext params)"
    if "upscale env file params fs = (Inr (buf, x), fs', ev)"
  proof -
    from upscale_success[OF that] obtain img' where "cv2_imdecode env file = Inr (Some img')"
      "x = get_extension (upscale_img_mode img') (ext params)"
      by blast
    then show ?thesis by blast
  qed
  then show ?thesis
    by (auto simp: get_extension_def upscale_img_mode_def)
qed

theorem get_extension_selection_witness:
  "get_extension (Some ''RGBA'') ''jpg'' = ''png'' \<and>
   get_extension None ''auto'' = ''jpg'' \<and>
   get_extension None ''webp'' = ''webp'' \<and>
   upscale_img_mode \<lparr>shape = [2, 2, 4], pixels = []\<rparr> = Some ''RGBA'' \<and>
   fst (upscale sample_env [137, 80, 1] sample_request [''/app/weights/realesr-general-x4v3.pth'']) =
     Inr ([255, 216], ''jpg'') \<and>
   (\<exists>img'. cv2_imdecode sample_env [137, 80, 1] = Inr (Some img') \<and>
      ''jpg'' = get_extension (upscale_img_mode img') (ext sample_request))"
proof -
  let ?fs = "[''/app/weights/realesr-general-x4v3.pth'']"
  let ?img = "\<lparr>shape = [2, 2, 4], pixels = []\<rparr>"
  obtain fs1 ev1 where u: "upscale sample_env [137, 80, 1] sample_request ?fs =
      (Inr ([255, 216], ''jpg''), fs1, ev1)"
    and f: "fst (upscale sample_env [137, 80, 1] sample_request ?fs) = Inr ([255, 216], ''jpg'')"
  proof -
    have "fst (upscale sample_env [137, 80, 1] sample_request ?fs) = Inr ([255, 216], ''jpg'')"
      by code_simp
    then show ?thesis
      using that by (cases "upscale sample_env [137, 80, 1] sample_request ?fs") auto
  qed
  from u get_extension_selection [of "Some ''RGBA''" "''jpg''" ?img sample_env "[137, 80, 1]"
      sample_request ?fs "[255, 216]" "''jpg''" fs1 ev1]
  have e: "\<exists>img'. cv2_imdecode sample_env [137, 80, 1] = Inr (Some img') \<and>
      ''jpg'' = get_extension (upscale_img_mode img') (ext sample_request)"
    by blast
  from get_extension_selection [of "Some ''RGBA''" "''jpg''" ?img sample_env "[137, 80, 1]"
      sample_request ?fs "[255, 216]" "''jpg''" fs1 ev1]
    get_extension_selection [of None "''auto''" ?img sample_env "[137, 80, 1]"
      sample_request ?fs "[255, 216]" "''jpg''" fs1 ev1]
    get_extension_selection [of None "''webp''" ?img sample_env "[137, 80, 1]"
      sample_request ?fs "[255, 216]" "''jpg''" fs1 ev1]
  have "get_extension (Some ''RGBA'') ''jpg'' = ''png'' \<and>
   get_extension None ''auto'' = ''jpg'' \<and>
   get_extension None ''webp'' = ''webp'' \<and>
   upscale_img_mode ?img = Some ''RGBA''"
    by simp
  with f e show ?thesis by blast
qed

text \<open>
  Claim C5. For each of the six supported identifiers \<open>_get_model\<close> returns a descriptor;
  its url list has two entries for \<open>realesr_general_x4v3\<close> and one entry for every other
  model. \<open>get_model\<close> is a function of the identifier alone: it takes no filesystem and
  yields no events.
\<close>

theorem get_model_url_count:
  "m \<in> {RealESRGAN_x4plus, RealESRGAN_x2plus, RealESRGAN_x4plus_anime_6B, realesr_animevideov3,
         realesr_general_x4v3, UltraSharp_x4} \<Longrightarrow>
   \<exists>me. get_model m = Inr me \<and> length (file_url me) = (if m = realesr_general_x4v3 then 2 else 1)"
  by (auto simp: get_model_def)

theorem get_model_url_count_witness:
  "(\<exists>me. get_model realesr_general_x4v3 = Inr me \<and> length (file_url me) = 2) \<and>
   (\<exists>me. get_model UltraSharp_x4 = Inr me \<and> length (file_url me) = 1)"
  using get_model_url_count [of realesr_general_x4v3] get_model_url_count [of UltraSharp_x4]
  by simp

text \<open>
  Claim C6, as amended. When \<open>weights/<name>.pth\<close> is a file, \<open>_get_model_path\<close>
  returns that path with the file test as its only event and the filesystem unchanged.
  In every case one call issues at most one fetch per url of the list. When the file is
  present after a first call, the first call and a second one together issue at most
  one fetch per url.
\<close>

theorem weight_resolution_fetches:
  "(os_path_isfile env fs (os_path_join ''weights'' (name @ ''.pth'')) \<longrightarrow>
      get_model_path env name urls fs =
        (Inr (os_path_join ''weights'' (name @ ''.pth'')), fs,
         [IsFile (os_path_join ''weights'' (name @ ''.pth''))])) \<and>
   fetches (snd (snd (get_model_path env name urls fs))) \<le> length urls \<and>
   (os_path_isfile env (fst (snd (get_model_path env name urls fs)))
        (os_path_join ''weights'' (name @ ''.pth'')) \<longrightarrow>
      fetches (snd (snd (get_model_path env name urls fs)) @
               snd (snd (get_model_path env name urls (fst (snd (get_model_path env name urls fs))))))
        \<le> length urls)"
proof (intro conjI impI)
  assume "os_path_isfile env fs (os_path_join ''weights'' (name @ ''.pth''))"
  then show "get_model_path env name urls fs =
        (Inr (os_path_join ''weights'' (name @ ''.pth'')), fs,
         [IsFile (os_path_join ''weights'' (name @ ''.pth''))])"
    by (rule get_model_path_hit)
next
  obtain r fs1 ev where c: "get_model_path env name urls fs = (r, fs1, ev)"
    by (cases "get_model_path env name urls fs")
  from get_model_path_fetches[OF c] c
  show "fetches (snd (snd (get_model_path env name urls fs))) \<le> length urls"
    by simp
next
  obtain r fs1 ev where c: "get_model_path env name urls fs = (r, fs1, ev)"
    by (cases "get_model_path env name urls fs")
  assume "os_path_isfile env (fst (snd (get_model_path env name urls fs)))
        (os_path_join ''weights'' (name @ ''.pth''))"
  with c have hit: "os_path_isfile env fs1 (os_path_join ''weights'' (name @ ''.pth''))"
    by simp
  have "fetches (ev @ snd (snd (get_model_path env name urls fs1))) \<le> length urls"
    using get_model_path_fetches[OF c] by (simp add: get_model_path_hit[OF hit] fetches_def)
  with c show "fetches (snd (snd (get_model_path env name urls fs)) @
               snd (snd (get_model_path env name urls (fst (snd (get_model_path env name urls fs))))))
        \<le> length urls"
    by simp
qed

theorem weight_resolution_fetches_witness:
  "os_path_isfile sample_env [''/app/weights/UltraSharp_x4.pth'']
     (os_path_join ''weights'' (''UltraSharp_x4'' @ ''.pth'')) \<and>
   get_model_path sample_env ''UltraSharp_x4''
     [''https://github.com/dmcooller/Not-Real-ESRGAN/releases/download/v0.3.1/UltraSharp_x4.pth'']
     [''/app/weights/UltraSharp_x4.pth''] =
     (Inr ''weights/UltraSharp_x4.pth'', [''/app/weights/UltraSharp_x4.pth''],
      [IsFile ''weights/UltraSharp_x4.pth'']) \<and>
   os_path_isfile sample_env
     (fst (snd (get_model_path sample_env ''UltraSharp_x4''
        [''https://github.com/dmcooller/Not-Real-ESRGAN/releases/download/v0.3.1/UltraSharp_x4.pth''] [])))
     (os_path_join ''weights'' (''UltraSharp_x4'' @ ''.pth'')) \<and>
   fetches
     (snd (snd (get_model_path sample_env ''UltraSharp_x4''
        [''https://github.com/dmcooller/Not-Real-ESRGAN/releases/download/v0.3.1/UltraSharp_x4.pth''] [])) @
      snd (snd (get_model_path sample_env ''UltraSharp_x4''
        [''https://github.com/dmcooller/Not-Real-ESRGAN/releases/download/v0.3.1/UltraSharp_x4.pth'']
        (fst (snd (get_model_path sample_env ''UltraSharp_x4''
           [''https://github.com/dmcooller/Not-Real-ESRGAN/releases/download/v0.3.1/UltraSharp_x4.pth''] []))))))
     \<le> 1"
proof -
  let ?u = "[''https://github.com/dmcooller/Not-Real-ESRGAN/releases/download/v0.3.1/UltraSharp_x4.pth'']"
  have hit: "os_path_isfile sample_env [''/app/weights/UltraSharp_x4.pth'']
     (os_path_join ''weights'' (''UltraSharp_x4'' @ ''.pth''))"
    by code_simp
  have p: "os_path_join ''weights'' (''UltraSharp_x4'' @ ''.pth'') = ''weights/UltraSharp_x4.pth''"
    by code_simp
  have after: "os_path_isfile sample_env (fst (snd (get_model_path sample_env ''UltraSharp_x4'' ?u [])))
     (os_path_join ''weights'' (''UltraSharp_x4'' @ ''.pth''))"
    by code_simp
  from hit weight_resolution_fetches [of sample_env "[''/app/weights/UltraSharp_x4.pth'']" "''UltraSharp_x4''" ?u]
  have one: "get_model_path sample_env ''UltraSharp_x4'' ?u [''/app/weights/UltraSharp_x4.pth''] =
     (Inr (os_path_join ''weights'' (''UltraSharp_x4'' @ ''.pth'')), [''/app/weights/UltraSharp_x4.pth''],
      [IsFile (os_path_join ''weights'' (''UltraSharp_x4'' @ ''.pth''))])"
    by blast
  from after weight_resolution_fetches [of sample_env "[]" "''UltraSharp_x4''" ?u]
  have two: "fetches (snd (snd (get_model_path sample_env ''UltraSharp_x4'' ?u [])) @
      snd (snd (get_model_path sample_env ''UltraSharp_x4'' ?u
        (fst (snd (get_model_path sample_env ''UltraSharp_x4'' ?u [])))))) \<le> length ?u"
    by blast
  from hit after one two show ?thesis
    by (simp only: p) simp
qed

text \<open>
  Claim C6 as stated does not hold: with an empty cache, the first of two successive calls
  for \<open>realesr_general_x4v3\<close> fetches both urls of the descriptor, and the second call is
  a cache hit that fetches nothing; the two calls make two fetches, not at most one.
\<close>

theorem two_calls_two_fetches:
  "snd (snd (get_model_path sample_env (ModelName_value sample_env realesr_general_x4v3)
      (file_url (projr (get_model realesr_general_x4v3))) [])) =
     [IsFile ''weights/realesr-general-x4v3.pth'',
      LoadFileFromUrl ''https://github.com/xinntao/Real-ESRGAN/releases/download/v0.2.5.0/realesr-general-wdn-x4v3.pth'' ''/app/weights'',
      LoadFileFromUrl ''https://github.com/xinntao/Real-ESRGAN/releases/download/v0.2.5.0/realesr-general-x4v3.pth'' ''/app/weights''] \<and>
   snd (snd (get_model_path sample_env (ModelName_value sample_env realesr_general_x4v3)
      (file_url (projr (get_model realesr_general_x4v3)))
      (fst (snd (get_model_path sample_env (ModelName_value sample_env realesr_general_x4v3)
         (file_url (projr (get_model realesr_general_x4v3))) []))))) =
     [IsFile ''weights/realesr-general-x4v3.pth''] \<and>
   \<not> fetches
       (snd (snd (get_model_path sample_env (ModelName_value sample_env realesr_general_x4v3)
          (file_url (projr (get_model realesr_general_x4v3))) [])) @
        snd (snd (get_model_path sample_env (ModelName_value sample_env realesr_general_x4v3)
          (file_url (projr (get_model realesr_general_x4v3)))
          (fst (snd (get_model_path sample_env (ModelName_value sample_env realesr_general_x4v3)
             (file_url (projr (get_model realesr_general_x4v3))) []))))))
     \<le> 1"
  by code_simp

text \<open>
  Claim C7. For an identifier outside the supported set \<open>upscale\<close> raises the
  \<open>ValueError\<close> of \<open>_get_model\<close> with no event at all (no file test, no fetch, no
  other call) and the filesystem unchanged.
\<close>

theorem invalid_model_fails_first:
  "model_name params \<notin> {RealESRGAN_x4plus, RealESRGAN_x2plus, RealESRGAN_x4plus_anime_6B,
      realesr_animevideov3, realesr_general_x4v3, UltraSharp_x4} \<Longrightarrow>
   upscale env file params fs = (Inl (ValueError ''Invalid model name''), fs, [])"
  by (simp add: upscale_unfold upscale_setup_unfold get_model_def)

theorem invalid_model_fails_first_witness:
  "upscale sample_env [1] (sample_request\<lparr>model_name := OtherName ''RealESRNet_x4plus''\<rparr>) [] =
     (Inl (ValueError ''Invalid model name''), [], [])"
  using invalid_model_fails_first
    [of "sample_request\<lparr>model_name := OtherName ''RealESRNet_x4plus''\<rparr>" sample_env "[1]" "[]"]
  by simp

text \<open>
  Claim C8. When the statements before the \<open>try\<close> have succeeded and the body of the
  \<open>try\<close> raises a \<open>RuntimeError\<close> \<open>e\<close>, \<open>upscale\<close> raises that same \<open>e\<close>; the
  only event after the failing call is the \<open>logger.error\<close> call for \<open>e\<close>, and the body
  made one attempt: one \<open>enhance\<close> call, or the face enhancer's construction followed by
  at most one \<open>enhance\<close> call. The result of \<open>upscale\<close> is an exception or a pair
  of buffer and extension; a returned pair is complete: the buffer is what a successful
  encoder call produced for that extension, and that call is the last event.
\<close>

theorem runtime_error_reraised:
  "(upscale_setup env file params fs = (Inr (up, dev, img, m), fs1, ev1) \<and>
    upscale_enhance env params up dev img fs1 = (Inl e, fs2, ev2) \<and>
    isinstance_RuntimeError e \<longrightarrow>
      upscale env file params fs = (Inl e, fs2, ev1 @ ev2 @ [LogError e]) \<and>
      (\<exists>kw. ev2 = [Enhance] \<or> ev2 = [NewGFPGANer kw] \<or> ev2 = [NewGFPGANer kw, FaceEnhance])) \<and>
   (upscale env file params fs = (Inr (buf, x), fs', ev) \<longrightarrow>
      (\<exists>out pre. cv2_imencode env x out = Inr (True, buf) \<and> ev = pre @ [Imencode x]))"
proof (intro conjI impI)
  assume h: "upscale_setup env file params fs = (Inr (up, dev, img, m), fs1, ev1) \<and>
    upscale_enhance env params up dev img fs1 = (Inl e, fs2, ev2) \<and>
    isinstance_RuntimeError e"
  then show "upscale env file params fs = (Inl e, fs2, ev1 @ ev2 @ [LogError e])"
    by (simp add: upscale_unfold upscale_try_unfold)
  from h upscale_enhance_shape[of env params up dev img fs1 "Inl e" fs2 ev2]
  show "\<exists>kw. ev2 = [Enhance] \<or> ev2 = [NewGFPGANer kw] \<or> ev2 = [NewGFPGANer kw, FaceEnhance]"
    by simp
next
  assume "upscale env file params fs = (Inr (buf, x), fs', ev)"
  from upscale_success[OF this]
  show "\<exists>out pre. cv2_imencode env x out = Inr (True, buf) \<and> ev = pre @ [Imencode x]"
    by blast
qed

theorem runtime_error_reraised_witness:
  "upscale sample_env [137, 80, 1] (sample_request\<lparr>tile := -1\<rparr>) [''/app/weights/realesr-general-x4v3.pth''] =
    (Inl (RuntimeError ''CUDA out of memory''), [''/app/weights/realesr-general-x4v3.pth''],
     [IsFile ''weights/realesr-general-x4v3.pth'', CudaIsAvailable, MpsIsAvailable,
      LogDebug ''Using backend: cpu'',
      NewRealESRGANer
       \<lparr>kw_scale = 4,
        kw_model_path = PathList [''weights/realesr-general-x4v3.pth'', ''weights/realesr-general-wdn-x4v3.pth''],
        kw_dni_weight = Some [Finite (5404319552844595 / 18014398509481984),
          Finite (3152519739159347 / 4503599627370496)],
        kw_model = SRVGGNetCompact 3 3 64 32 4 ''prelu'', kw_tile = - 1,
        kw_tile_pad = 10, kw_pre_pad = 0, kw_half = False, kw_gpu_id = None,
        kw_device = ''cpu''\<rparr>,
      Imdecode [137, 80, 1], Enhance, LogError (RuntimeError ''CUDA out of memory'')])"
proof -
  let ?kw = "\<lparr>kw_scale = 4,
        kw_model_path = PathList [''weights/realesr-general-x4v3.pth'', ''weights/realesr-general-wdn-x4v3.pth''],
        kw_dni_weight = Some [Finite (5404319552844595 / 18014398509481984),
          Finite (3152519739159347 / 4503599627370496)],
        kw_model = SRVGGNetCompact 3 3 64 32 4 ''prelu'', kw_tile = - 1,
        kw_tile_pad = 10, kw_pre_pad = 0, kw_half = False, kw_gpu_id = None,
        kw_device = ''cpu''\<rparr>"
  let ?img = "\<lparr>shape = [1, 1, 3], pixels = [0, 0, 0]\<rparr>"
  have h1: "upscale_setup sample_env [137, 80, 1] (sample_request\<lparr>tile := -1\<rparr>)
      [''/app/weights/realesr-general-x4v3.pth''] =
    (Inr (?kw, ''cpu'', ?img, None), [''/app/weights/realesr-general-x4v3.pth''],
     [IsFile ''weights/realesr-general-x4v3.pth'', CudaIsAvailable, MpsIsAvailable,
      LogDebug ''Using backend: cpu'', NewRealESRGANer ?kw, Imdecode [137, 80, 1]])"
    by code_simp
  have h2: "upscale_enhance sample_env (sample_request\<lparr>tile := -1\<rparr>) ?kw ''cpu'' ?img
      [''/app/weights/realesr-general-x4v3.pth''] =
    (Inl (RuntimeError ''CUDA out of memory''), [''/app/weights/realesr-general-x4v3.pth''], [Enhance])"
    by code_simp
  have h3: "isinstance_RuntimeError (RuntimeError ''CUDA out of memory'')"
    by simp
  from h1 h2 h3 runtime_error_reraised [of sample_env "[137, 80, 1]" "sample_request\<lparr>tile := -1\<rparr>"
      "[''/app/weights/realesr-general-x4v3.pth'']" ?kw "''cpu''" ?img None
      "[''/app/weights/realesr-general-x4v3.pth'']"
      "[IsFile ''weights/realesr-general-x4v3.pth'', CudaIsAvailable, MpsIsAvailable,
        LogDebug ''Using backend: cpu'', NewRealESRGANer ?kw, Imdecode [137, 80, 1]]"
      "RuntimeError ''CUDA out of memory''" "[''/app/weights/realesr-general-x4v3.pth'']" "[Enhance]"]
  have "upscale sample_env [137, 80, 1] (sample_request\<lparr>tile := -1\<rparr>)
      [''/app/weights/realesr-general-x4v3.pth''] =
    (Inl (RuntimeError ''CUDA out of memory''), [''/app/weights/realesr-general-x4v3.pth''],
     [IsFile ''weights/realesr-general-x4v3.pth'', CudaIsAvailable, MpsIsAvailable,
      LogDebug ''Using backend: cpu'', NewRealESRGANer ?kw, Imdecode [137, 80, 1]] @
     [Enhance] @ [LogError (RuntimeError ''CUDA out of memory'')])"
    by blast
  then show ?thesis
    by simp
qed

text \<open>
  Claim C9. The weight resolver tests one file, \<open>weights/<name>.pth\<close>. When it exists,
  \<open>_get_model_path\<close> returns that path with the file test as its only event: no url of
  the list is fetched and the filesystem is unchanged. For \<open>realesr_general_x4v3\<close> with
  a strength other than 1, the statements before the \<open>try\<close> then leave the filesystem as
  it was, make no fetch and no second file test, and hand \<open>RealESRGANer\<close> the path list
  whose second entry is the resolved path with the wdn name substituted; nothing has
  ensured that this file exists.
\<close>

theorem cache_hit_skips_wdn:
  assumes p: "p = os_path_join ''weights'' (ModelName_value env realesr_general_x4v3 @ ''.pth'')"
    and hit: "os_path_isfile env fs p"
    and name: "model_name params = realesr_general_x4v3"
    and strength: "denoise_strength params = Some s" "\<not> feq s (Finite 1)"
    and dev: "get_device_type env (device_type params) fs = (Inr dev, fs2, evd)"
  shows "get_model_path env (ModelName_value env realesr_general_x4v3) urls fs = (Inr p, fs, [IsFile p]) \<and>
    (\<exists>r kw tl. upscale_setup env file params fs = (r, fs, IsFile p # evd @ NewRealESRGANer kw # tl) \<and>
       kw_model_path kw =
         PathList [p, str_replace p ''realesr-general-x4v3'' ''realesr-general-wdn-x4v3''] \<and>
       fetches (IsFile p # evd @ NewRealESRGANer kw # tl) = 0)"
proof
  from hit show h: "get_model_path env (ModelName_value env realesr_general_x4v3) urls fs = (Inr p, fs, [IsFile p])"
    unfolding p by (rule get_model_path_hit)
  obtain me where me: "get_model realesr_general_x4v3 = Inr me"
    by (simp add: get_model_def)
  from hit have h': "get_model_path env (ModelName_value env realesr_general_x4v3) (file_url me) fs = (Inr p, fs, [IsFile p])"
    unfolding p by (rule get_model_path_hit)
  from get_device_type_events[OF dev] have fs2: "fs2 = fs" and nf: "\<forall>x \<in> set evd. \<not> is_fetch x"
    by auto
  let ?kw = "upscale_kwargs params me p dev"
  have kwp: "kw_model_path ?kw =
      PathList [p, str_replace p ''realesr-general-x4v3'' ''realesr-general-wdn-x4v3'']"
    using name strength by (simp add: upscale_kwargs_def upscale_dni_def Let_def)
  have "\<exists>r tl. upscale_setup env file params fs = (r, fs, IsFile p # evd @ NewRealESRGANer ?kw # tl) \<and>
      (tl = [] \<or> tl = [Imdecode file])"
    using name me h' dev fs2
    by (auto simp: upscale_setup_unfold split: option.splits sum.splits)
  then obtain r tl where s: "upscale_setup env file params fs = (r, fs, IsFile p # evd @ NewRealESRGANer ?kw # tl)"
    and tl: "tl = [] \<or> tl = [Imdecode file]" by blast
  from nf have "filter is_fetch evd = []" by (simp add: filter_empty_conv)
  with tl have "fetches (IsFile p # evd @ NewRealESRGANer ?kw # tl) = 0"
    by (auto simp: fetches_def)
  with s kwp
  show "\<exists>r kw tl. upscale_setup env file params fs = (r, fs, IsFile p # evd @ NewRealESRGANer kw # tl) \<and>
       kw_model_path kw =
         PathList [p, str_replace p ''realesr-general-x4v3'' ''realesr-general-wdn-x4v3''] \<and>
       fetches (IsFile p # evd @ NewRealESRGANer kw # tl) = 0"
    by blast
qed

theorem cache_hit_skips_wdn_witness:
  "os_path_isfile sample_env [''/app/weights/realesr-general-x4v3.pth''] ''weights/realesr-general-x4v3.pth'' \<and>
   \<not> os_path_isfile sample_env [''/app/weights/realesr-general-x4v3.pth''] ''weights/realesr-general-wdn-x4v3.pth'' \<and>
   (\<exists>r kw tl. upscale_setup sample_env [137, 80, 1] sample_request [''/app/weights/realesr-general-x4v3.pth''] =
      (r, [''/app/weights/realesr-general-x4v3.pth''],
       IsFile ''weights/realesr-general-x4v3.pth'' #
       [CudaIsAvailable, MpsIsAvailable, LogDebug ''Using backend: cpu''] @ NewRealESRGANer kw # tl) \<and>
      kw_model_path kw =
        PathList [''weights/realesr-general-x4v3.pth'', ''weights/realesr-general-wdn-x4v3.pth''])"
proof -
  let ?fs = "[''/app/weights/realesr-general-x4v3.pth'']"
  have p: "''weights/realesr-general-x4v3.pth'' =
      os_path_join ''weights'' (ModelName_value sample_env realesr_general_x4v3 @ ''.pth'')"
    by code_simp
  have hit: "os_path_isfile sample_env ?fs ''weights/realesr-general-x4v3.pth''"
    by code_simp
  have miss: "\<not> os_path_isfile sample_env ?fs ''weights/realesr-general-wdn-x4v3.pth''"
    by code_simp
  have name: "model_name sample_request = realesr_general_x4v3"
    by (simp add: sample_request_def)
  have strength: "denoise_strength sample_request = Some (Finite (5404319552844595 / 18014398509481984))"
    "\<not> feq (Finite (5404319552844595 / 18014398509481984)) (Finite 1)"
    by (simp_all add: sample_request_def)
  have dev: "get_device_type sample_env (device_type sample_request) ?fs =
      (Inr ''cpu'', ?fs, [CudaIsAvailable, MpsIsAvailable, LogDebug ''Using backend: cpu''])"
    by code_simp
  have r: "str_replace ''weights/realesr-general-x4v3.pth'' ''realesr-general-x4v3'' ''realesr-general-wdn-x4v3'' =
      ''weights/realesr-general-wdn-x4v3.pth''"
    by code_simp
  from cache_hit_skips_wdn [OF p hit name strength dev, of "[]" "[137, 80, 1]"] hit miss
  show ?thesis
    unfolding r by blast
qed

text \<open>
  Claim C10. When the decoder returns \<open>None\<close> for the input bytes, \<open>upscale\<close> raises, and
  none of its events is an enhancement or encoder call. When the earlier statements
  succeed, the exception is the \<open>AttributeError\<close> of reading \<open>img.shape\<close>, and it comes
  after the events of the weight resolution (file test and any fetch), of the device
  resolution and of the \<open>RealESRGANer\<close> construction; the filesystem is the one the
  weight resolution left.
\<close>

theorem undecodable_input_fails_late:
  "cv2_imdecode env file = Inr None \<Longrightarrow>
   (\<exists>e fs' ev. upscale env file params fs = (Inl e, fs', ev) \<and>
      (\<forall>x \<in> set ev. \<not> is_enhance_or_encode x)) \<and>
   (\<forall>me p fs1 ev1 dev fs2 ev2.
      get_model (model_name params) = Inr me \<and>
      get_model_path env (ModelName_value env (model_name params)) (file_url me) fs = (Inr p, fs1, ev1) \<and>
      get_device_type env (device_type params) fs1 = (Inr dev, fs2, ev2) \<and>
      RealESRGANer_init env fs2 (upscale_kwargs params me p dev) = None \<longrightarrow>
      upscale env file params fs =
        (Inl (AttributeError ''NoneType object has no attribute shape''), fs2,
         ev1 @ ev2 @ [NewRealESRGANer (upscale_kwargs params me p dev), Imdecode file]))"
proof (intro conjI allI impI)
  assume dec: "cv2_imdecode env file = Inr None"
  obtain r fs' ev where s: "upscale_setup env file params fs = (r, fs', ev)"
    by (cases "upscale_setup env file params fs")
  from dec s have "\<exists>e. r = Inl e"
    by (auto simp: upscale_setup_unfold split: sum.splits prod.splits option.splits)
  then obtain e where "r = Inl e" by blast
  with s have "upscale env file params fs = (Inl e, fs', ev)"
    by (simp add: upscale_unfold)
  with setup_failure_events[OF s]
  show "\<exists>e fs' ev. upscale env file params fs = (Inl e, fs', ev) \<and>
      (\<forall>x \<in> set ev. \<not> is_enhance_or_encode x)"
    by blast
next
  fix me p fs1 ev1 dev fs2 ev2
  assume dec: "cv2_imdecode env file = Inr None"
    and h: "get_model (model_name params) = Inr me \<and>
      get_model_path env (ModelName_value env (model_name params)) (file_url me) fs = (Inr p, fs1, ev1) \<and>
      get_device_type env (device_type params) fs1 = (Inr dev, fs2, ev2) \<and>
      RealESRGANer_init env fs2 (upscale_kwargs params me p dev) = None"
  then show "upscale env file params fs =
        (Inl (AttributeError ''NoneType object has no attribute shape''), fs2,
         ev1 @ ev2 @ [NewRealESRGANer (upscale_kwargs params me p dev), Imdecode file])"
    by (simp add: upscale_unfold upscale_setup_unfold)
qed

theorem undecodable_input_fails_late_witness:
  "cv2_imdecode sample_env [1] = Inr None \<and>
   upscale sample_env [1] sample_request [] =
    (Inl (AttributeError ''NoneType object has no attribute shape''),
     [''/app/weights/realesr-general-wdn-x4v3.pth'', ''/app/weights/realesr-general-x4v3.pth''],
     [IsFile ''weights/realesr-general-x4v3.pth'',
      LoadFileFromUrl ''https://github.com/xinntao/Real-ESRGAN/releases/download/v0.2.5.0/realesr-general-wdn-x4v3.pth'' ''/app/weights'',
      LoadFileFromUrl ''https://github.com/xinntao/Real-ESRGAN/releases/download/v0.2.5.0/realesr-general-x4v3.pth'' ''/app/weights'',
      CudaIsAvailable, MpsIsAvailable, LogDebug ''Using backend: cpu'',
      NewRealESRGANer
       \<lparr>kw_scale = 4,
        kw_model_path = PathList [''/app/weights/realesr-general-x4v3.pth'', ''/app/weights/realesr-general-wdn-x4v3.pth''],
        kw_dni_weight = Some [Finite (5404319552844595 / 18014398509481984),
          Finite (3152519739159347 / 4503599627370496)],
        kw_model = SRVGGNetCompact 3 3 64 32 4 ''prelu'', kw_tile = 0,
        kw_tile_pad = 10, kw_pre_pad = 0, kw_half = False, kw_gpu_id = None,
        kw_device = ''cpu''\<rparr>,
      Imdecode [1]])"
proof -
  let ?me = "\<lparr>model = SRVGGNetCompact 3 3 64 32 4 ''prelu'', netscale = 4,
            file_url = [''https://github.com/xinntao/Real-ESRGAN/releases/download/v0.2.5.0/realesr-general-wdn-x4v3.pth'',
                        ''https://github.com/xinntao/Real-ESRGAN/releases/download/v0.2.5.0/realesr-general-x4v3.pth'']\<rparr>"
  let ?fs1 = "[''/app/weights/realesr-general-wdn-x4v3.pth'', ''/app/weights/realesr-general-x4v3.pth'']"
  let ?ev1 = "[IsFile ''weights/realesr-general-x4v3.pth'',
      LoadFileFromUrl ''https://github.com/xinntao/Real-ESRGAN/releases/download/v0.2.5.0/realesr-general-wdn-x4v3.pth'' ''/app/weights'',
      LoadFileFromUrl ''https://github.com/xinntao/Real-ESRGAN/releases/download/v0.2.5.0/realesr-general-x4v3.pth'' ''/app/weights'']"
  let ?ev2 = "[CudaIsAvailable, MpsIsAvailable, LogDebug ''Using backend: cpu'']"
  have dec: "cv2_imdecode sample_env [1] = Inr None"
    by code_simp
  have a: "get_model (model_name sample_request) = Inr ?me"
    by code_simp
  have b: "get_model_path sample_env (ModelName_value sample_env (model_name sample_request))
      (file_url ?me) [] = (Inr ''/app/weights/realesr-general-x4v3.pth'', ?fs1, ?ev1)"
    by code_simp
  have c: "get_device_type sample_env (device_type sample_request) ?fs1 = (Inr ''cpu'', ?fs1, ?ev2)"
    by code_simp
  have d: "RealESRGANer_init sample_env ?fs1
      (upscale_kwargs sample_request ?me ''/app/weights/realesr-general-x4v3.pth'' ''cpu'') = None"
    by code_simp
  have k: "upscale_kwargs sample_request ?me ''/app/weights/realesr-general-x4v3.pth'' ''cpu'' =
      \<lparr>kw_scale = 4,
        kw_model_path = PathList [''/app/weights/realesr-general-x4v3.pth'', ''/app/weights/realesr-general-wdn-x4v3.pth''],
        kw_dni_weight = Some [Finite (5404319552844595 / 18014398509481984),
          Finite (3152519739159347 / 4503599627370496)],
        kw_model = SRVGGNetCompact 3 3 64 32 4 ''prelu'', kw_tile = 0,
        kw_tile_pad = 10, kw_pre_pad = 0, kw_half = False, kw_gpu_id = None,
        kw_device = ''cpu''\<rparr>"
    by code_simp
  from undecodable_input_fails_late [OF dec, of sample_request "[]"] a b c d
  have "upscale sample_env [1] sample_request [] =
        (Inl (AttributeError ''NoneType object has no attribute shape''), ?fs1,
         ?ev1 @ ?ev2 @ [NewRealESRGANer (upscale_kwargs sample_request ?me ''/app/weights/realesr-general-x4v3.pth'' ''cpu''), Imdecode [1]])"
    by blast
  with dec k show ?thesis by simp
qed

end
